theory Spec2Isabelle
  imports Main
begin

section \<open>Parsed XML documents, as the installer reads them through pugixml\<close>

text \<open>
  The installer never looks at raw XML: it works on the node tree that
  \<^verbatim>\<open>pugi::xml_document::load_file\<close> builds. An element has a tag name, attributes in
  document order and child nodes; character data is a child node with an empty name.
  The document itself is the root node: an element with an empty name and no attribute.
\<close>

datatype xml = Element string "(string \<times> string) list" "xml list" | PCData string

text \<open>
  A \<^verbatim>\<open>pugi::xml_node\<close> is a handle into the tree that can be asked for its parent, so
  a handle is the node followed by its ancestors, innermost first; the empty list is the
  null handle, on which every accessor answers empty, as in pugixml.
\<close>

type_synonym xml_node = "xml list"

fun node_name :: "xml_node \<Rightarrow> string" where
  "node_name [] = []"
| "node_name (Element n as cs # up) = n"
| "node_name (PCData t # up) = []"

fun attributes :: "xml_node \<Rightarrow> (string \<times> string) list" where
  "attributes [] = []"
| "attributes (Element n as cs # up) = as"
| "attributes (PCData t # up) = []"

text \<open>\<^verbatim>\<open>node.attribute(k)\<close>: the first attribute of that name, if any.\<close>

definition attribute :: "xml_node \<Rightarrow> string \<Rightarrow> string option" where
  "attribute h k = map_of (attributes h) k"

text \<open>\<^verbatim>\<open>attribute(k).value()\<close> is the empty string when the attribute is missing.\<close>

definition attr_value :: "xml_node \<Rightarrow> string \<Rightarrow> string" where
  "attr_value h k = (case attribute h k of None \<Rightarrow> [] | Some v \<Rightarrow> v)"

text \<open>\<^verbatim>\<open>attribute(k).as_string(def)\<close> is \<open>def\<close> when the attribute is missing.\<close>

definition attr_as_string :: "xml_node \<Rightarrow> string \<Rightarrow> string \<Rightarrow> string" where
  "attr_as_string h k def = (case attribute h k of None \<Rightarrow> def | Some v \<Rightarrow> v)"

fun children :: "xml_node \<Rightarrow> xml_node list" where
  "children [] = []"
| "children (Element n as cs # up) = map (\<lambda>c. c # Element n as cs # up) cs"
| "children (PCData t # up) = []"

definition children_named :: "xml_node \<Rightarrow> string \<Rightarrow> xml_node list" where
  "children_named h k = filter (\<lambda>c. node_name c = k) (children h)"

text \<open>\<^verbatim>\<open>node.child(k)\<close>: the first child of that name, or the null handle.\<close>

definition child :: "xml_node \<Rightarrow> string \<Rightarrow> xml_node" where
  "child h k = (case children_named h k of [] \<Rightarrow> [] | c # cs \<Rightarrow> c)"

definition parent :: "xml_node \<Rightarrow> xml_node" where
  "parent h = tl h"

text \<open>\<^verbatim>\<open>node.text().as_string()\<close>: the value of the first character-data child.\<close>

fun first_pcdata :: "xml list \<Rightarrow> string" where
  "first_pcdata [] = []"
| "first_pcdata (PCData t # cs) = t"
| "first_pcdata (Element n as ks # cs) = first_pcdata cs"

fun text_as_string :: "xml_node \<Rightarrow> string" where
  "text_as_string [] = []"
| "text_as_string (Element n as cs # up) = first_pcdata cs"
| "text_as_string (PCData t # up) = t"

section \<open>The flag table\<close>

text \<open>
  \<^verbatim>\<open>std::unordered_map<std::string, std::string> pluginFlags\<close> is a global of the
  library. Every function that touches it takes its value and returns the new one.
\<close>

type_synonym flag_table = "string \<rightharpoonup> string"

text \<open>
  \<^verbatim>\<open>pluginFlags[k]\<close> used as a value: \<^verbatim>\<open>operator[]\<close> of an unordered map inserts an
  empty string under a key that is not there yet, and hands back the stored value.
\<close>

definition subscript :: "flag_table \<Rightarrow> string \<Rightarrow> string \<times> flag_table" where
  "subscript flags k = (case flags k of None \<Rightarrow> ([], flags(k \<mapsto> [])) | Some v \<Rightarrow> (v, flags))"

text \<open>\<^verbatim>\<open>extractFlags\<close>, the loop over the \<^verbatim>\<open><flag>\<close> children first.\<close>

fun extractFlags_loop :: "xml_node list \<Rightarrow> flag_table \<Rightarrow> flag_table" where
  "extractFlags_loop [] flags = flags"
| "extractFlags_loop (flagNode # rest) flags =
     (let flagName = attr_value flagNode ''name'';
          flagValue = text_as_string flagNode
      in extractFlags_loop rest (if flagName \<noteq> [] then flags(flagName \<mapsto> flagValue) else flags))"

definition extractFlags :: "xml_node \<Rightarrow> flag_table \<Rightarrow> flag_table" where
  "extractFlags pluginNode flags =
     (let conditionFlagsNode = child pluginNode ''conditionFlags''
      in if conditionFlagsNode \<noteq> []
         then extractFlags_loop (children_named conditionFlagsNode ''flag'') flags
         else flags)"

section \<open>The dependency evaluator\<close>

text \<open>
  One \<^verbatim>\<open><flagDependency>\<close>: \<^verbatim>\<open>flagExists && (pluginFlags[flagName] == requiredValue)\<close>.
  The right operand of \<^verbatim>\<open>&&\<close> runs only when the left one is true.
\<close>

definition flagMatches :: "xml_node \<Rightarrow> flag_table \<Rightarrow> bool \<times> flag_table" where
  "flagMatches depNode flags =
     (let flagName = attr_value depNode ''flag'';
          requiredValue = attr_value depNode ''value'';
          flagExists = (flags flagName \<noteq> None)
      in if flagExists
         then (case subscript flags flagName of (v, flags') \<Rightarrow> (v = requiredValue, flags'))
         else (False, flags))"

fun areDependenciesMet_loop ::
  "string \<Rightarrow> xml_node list \<Rightarrow> bool \<Rightarrow> flag_table \<Rightarrow> bool \<times> flag_table" where
  "areDependenciesMet_loop operatorType [] result flags = (result, flags)"
| "areDependenciesMet_loop operatorType (depNode # rest) result flags =
     (case flagMatches depNode flags of (m, flags') \<Rightarrow>
        areDependenciesMet_loop operatorType rest
          (if operatorType = ''And'' then result \<and> m
           else if operatorType = ''Or'' then result \<or> m
           else result)
          flags')"

definition areDependenciesMet :: "xml_node \<Rightarrow> flag_table \<Rightarrow> bool \<times> flag_table" where
  "areDependenciesMet dependenciesNode flags =
     (let operatorType = attr_as_string dependenciesNode ''operator'' ''And''
      in areDependenciesMet_loop operatorType
           (children_named dependenciesNode ''flagDependency'')
           (operatorType = ''And'') flags)"

section \<open>XPath queries\<close>

text \<open>
  The installer asks pugixml three XPath questions. The first and the last are fixed
  expressions; the second is assembled from the three strings of a selector:
  \<^verbatim>\<open>//requiredInstallFiles/*\<close>,
  \<^verbatim>\<open>(//installStep[normalize-space(@name)="S"]//optionalFileGroups//group|//optionalFileGroups//group[normalize-space(@name)="G"])//plugins/plugin[normalize-space(@name)="P"]\<close>
  and \<^verbatim>\<open>//conditionalFileInstalls/patterns/pattern\<close>.
\<close>

datatype xpath_query = RequiredInstallFiles | PluginQuery string string string | Patterns

datatype error =
    ExtractFailed             \<comment> \<open>"Failed to extract archive: ..."\<close>
  | CannotOpenJson            \<comment> \<open>"Cannot open JSON config: ..."\<close>
  | JsonParseError            \<comment> \<open>\<^verbatim>\<open>nlohmann::json::parse_error\<close>\<close>
  | JsonTypeError             \<comment> \<open>\<^verbatim>\<open>nlohmann::json::type_error\<close>\<close>
  | XmlParseError             \<comment> \<open>"Cannot parse XML (...)"\<close>
  | XPathError                \<comment> \<open>\<^verbatim>\<open>pugi::xpath_exception\<close>\<close>
  | NoModuleName              \<comment> \<open>"Multiple mod folders detected but no moduleName in JSON to disambiguate."\<close>
  | MatchedNoFolder string    \<comment> \<open>"moduleName '...' did not match any folder."\<close>
  | MatchedMultipleFolders string  \<comment> \<open>"moduleName '...' matched multiple folders."\<close>

text \<open>
  \<^verbatim>\<open>doc.select_nodes\<close> belongs to pugixml, not to the installer. The installer's functions
  take it as an argument: the nodes it answers, in the order in which it answers them, or
  the exception it throws. Everything proved below with a variable engine holds whatever
  order the library iterates a node set in.
\<close>

type_synonym xpath_engine = "xml_node \<Rightarrow> xpath_query \<Rightarrow> error + xml_node list"

subsection \<open>A reference engine\<close>

text \<open>
  The reference engine answers the three queries in document order, each node once. It reads
  the selector strings as XPath string literals, which is what they are as long as they hold
  no double quote; a string with a double quote changes the expression itself, and the
  reference engine answers such a query with \<open>XPathError\<close>.
\<close>

fun descendant_or_self_in :: "xml list \<Rightarrow> xml \<Rightarrow> xml_node list" where
  "descendant_or_self_in up (PCData t) = [PCData t # up]"
| "descendant_or_self_in up (Element n as cs) =
     (Element n as cs # up) # concat (map (descendant_or_self_in (Element n as cs # up)) cs)"

fun descendants :: "xml_node \<Rightarrow> xml_node list" where
  "descendants [] = []"
| "descendants (n # up) = tl (descendant_or_self_in up n)"

fun ancestors_or_self :: "xml_node \<Rightarrow> xml_node list" where
  "ancestors_or_self [] = []"
| "ancestors_or_self (n # up) = (n # up) # ancestors_or_self up"

definition ancestors :: "xml_node \<Rightarrow> xml_node list" where
  "ancestors h = ancestors_or_self (parent h)"

fun is_element :: "xml_node \<Rightarrow> bool" where
  "is_element (Element n as cs # up) = True"
| "is_element h = False"

definition is_space :: "char \<Rightarrow> bool" where
  "is_space c = (c = CHR '' '' \<or> c = CHR 0x09 \<or> c = CHR 0x0A \<or> c = CHR 0x0D)"

fun collapse_spaces :: "string \<Rightarrow> string" where
  "collapse_spaces [] = []"
| "collapse_spaces (c # cs) =
     (if is_space c
      then (case cs of [] \<Rightarrow> []
            | d # ds \<Rightarrow> if is_space d then collapse_spaces cs else CHR '' '' # collapse_spaces cs)
      else c # collapse_spaces cs)"

text \<open>XPath's \<^verbatim>\<open>normalize-space\<close>: no blank at either end, one space for each inner run.\<close>

definition normalize_space :: "string \<Rightarrow> string" where
  "normalize_space s = collapse_spaces (dropWhile is_space s)"

definition under_optionalFileGroups :: "xml_node \<Rightarrow> bool" where
  "under_optionalFileGroups g = list_ex (\<lambda>a. node_name a = ''optionalFileGroups'') (ancestors g)"

definition under_installStep_named :: "string \<Rightarrow> xml_node \<Rightarrow> bool" where
  "under_installStep_named s g =
     list_ex (\<lambda>a. node_name a = ''optionalFileGroups'' \<and>
                   list_ex (\<lambda>i. node_name i = ''installStep'' \<and>
                                 normalize_space (attr_value i ''name'') = s) (ancestors a))
       (ancestors g)"

definition selected_group :: "string \<Rightarrow> string \<Rightarrow> xml_node \<Rightarrow> bool" where
  "selected_group s g h =
     (node_name h = ''group'' \<and>
      (under_installStep_named s h \<or>
       (under_optionalFileGroups h \<and> normalize_space (attr_value h ''name'') = g)))"

definition selected_plugin :: "string \<Rightarrow> string \<Rightarrow> string \<Rightarrow> xml_node \<Rightarrow> bool" where
  "selected_plugin s g p h =
     (node_name h = ''plugin'' \<and> normalize_space (attr_value h ''name'') = p \<and>
      node_name (parent h) = ''plugins'' \<and>
      list_ex (selected_group s g) (ancestors (parent h)))"

definition has_quote :: "string \<Rightarrow> bool" where
  "has_quote s = (CHR 0x22 \<in> set s)"

fun select_nodes :: xpath_engine where
  "select_nodes doc RequiredInstallFiles =
     Inr (concat (map (\<lambda>r. filter is_element (children r))
                      (filter (\<lambda>h. node_name h = ''requiredInstallFiles'') (descendants doc))))"
| "select_nodes doc (PluginQuery s g p) =
     (if has_quote s \<or> has_quote g \<or> has_quote p then Inl XPathError
      else Inr (filter (selected_plugin s g p) (descendants doc)))"
| "select_nodes doc Patterns =
     Inr (concat (map (\<lambda>ps. children_named ps ''pattern'')
            (concat (map (\<lambda>c. children_named c ''patterns'')
               (filter (\<lambda>h. node_name h = ''conditionalFileInstalls'') (descendants doc))))))"

section \<open>The JSON override, as nlohmann::json parses it\<close>

datatype json =
    JNull | JBool bool | JNumber int | JString string
  | JArray "json list" | JObject "(string \<times> json) list"

definition contains :: "json \<Rightarrow> string \<Rightarrow> bool" where
  "contains j k = (case j of JObject kvs \<Rightarrow> map_of kvs k \<noteq> None | _ \<Rightarrow> False)"

text \<open>
  \<^verbatim>\<open>j[k]\<close> on a json that is not const: a missing key of an object is created with the
  value null, null itself becomes an object first, any other type throws.
\<close>

definition json_subscript :: "json \<Rightarrow> string \<Rightarrow> error + json" where
  "json_subscript j k =
     (case j of
        JObject kvs \<Rightarrow> (case map_of kvs k of None \<Rightarrow> Inr JNull | Some v \<Rightarrow> Inr v)
      | JNull \<Rightarrow> Inr JNull
      | _ \<Rightarrow> Inl JsonTypeError)"

text \<open>The conversion to \<^verbatim>\<open>std::string\<close> throws on anything but a string.\<close>

fun get_string :: "json \<Rightarrow> error + string" where
  "get_string (JString s) = Inr s"
| "get_string j = Inl JsonTypeError"

text \<open>\<^verbatim>\<open>j.value(k, def)\<close>: objects only; the default when the key is missing.\<close>

definition json_value :: "json \<Rightarrow> string \<Rightarrow> string \<Rightarrow> error + string" where
  "json_value j k def =
     (case j of
        JObject kvs \<Rightarrow> (case map_of kvs k of None \<Rightarrow> Inr def | Some v \<Rightarrow> get_string v)
      | _ \<Rightarrow> Inl JsonTypeError)"

section \<open>The world of one call\<close>

text \<open>
  What a call of \<^verbatim>\<open>install\<close> finds outside the process: the tree that libarchive
  extracted (directory entries in the order the directory iterators yield them), the JSON
  file beside the archive, and what pugixml makes of the \<^verbatim>\<open>ModuleConfig.xml\<close> that the scan
  found (the top-level nodes of the document, or nothing when loading fails). Names in a
  directory are looked up as they are spelled. Failures of the file system itself, other
  than a JSON file that cannot be opened and an archive that cannot be extracted, are not
  part of the model.
\<close>

datatype fsnode = File string | Dir string "fsnode list"

datatype json_file = NoFile | Unreadable | Malformed | Parsed json

record world =
  extracted :: "fsnode list option"
  json_side :: json_file
  module_config :: "xml list option"

text \<open>
  Paths stay symbolic: \<open>Join p s\<close> is \<^verbatim>\<open>p / s\<close> of \<^verbatim>\<open>std::filesystem\<close>. \<open>TempDir\<close>
  is the fresh \<^verbatim>\<open>fomod-%%%%-%%%%\<close> directory, \<open>ModDirectory\<close> the \<^verbatim>\<open>modPath\<close> argument and
  \<open>JsonPath\<close> the JSON file beside the archive.
\<close>

datatype path = TempDir | ModDirectory | JsonPath | Join path string

definition archiveRoot :: path where
  "archiveRoot = Join TempDir ''archive''"

definition dstBase :: path where
  "dstBase = Join TempDir ''unfomod''"

fun parent_path :: "path \<Rightarrow> path" where
  "parent_path (Join p s) = p"
| "parent_path p = p"

text \<open>
  The file-system calls a run makes, in order: the \<^verbatim>\<open>copyFile\<close> and \<^verbatim>\<open>copyFolder\<close>
  lambdas, the direct \<^verbatim>\<open>fs::copy_file\<close> of the JSON file and \<^verbatim>\<open>fs::remove_all\<close>. Log
  lines are left out.
\<close>

datatype fs_op =
    CopyFile path path | CopyFolder path path | StdCopyFile path path | RemoveAll path

record state =
  pluginFlags :: flag_table
  ops :: "fs_op list"

text \<open>\<^verbatim>\<open>to_lower\<close>: \<^verbatim>\<open>std::tolower\<close> on each byte, in the C locale.\<close>

definition lower_char :: "char \<Rightarrow> char" where
  "lower_char c =
     (let n = (of_char c :: nat) in if 65 \<le> n \<and> n \<le> 90 then char_of (n + 32) else c)"

definition to_lower :: "string \<Rightarrow> string" where
  "to_lower input = map lower_char input"

fun entry_name :: "fsnode \<Rightarrow> string" where
  "entry_name (File n) = n"
| "entry_name (Dir n es) = n"

fun is_directory :: "fsnode \<Rightarrow> bool" where
  "is_directory (Dir n es) = True"
| "is_directory (File n) = False"

fun entries :: "fsnode \<Rightarrow> fsnode list" where
  "entries (Dir n es) = es"
| "entries (File n) = []"

text \<open>\<^verbatim>\<open>fs::exists(p / name)\<close> for a directory \<open>p\<close> with the entries \<open>es\<close>.\<close>

definition fs_exists :: "fsnode list \<Rightarrow> string \<Rightarrow> bool" where
  "fs_exists es name = (name \<in> set (map entry_name es))"

section \<open>Layout classification\<close>

text \<open>
  The scan with \<^verbatim>\<open>fs::recursive_directory_iterator\<close>: a directory comes before its
  contents, and the first directory named fomod (in any case) that holds
  \<^verbatim>\<open>ModuleConfig.xml\<close> ends the scan.
\<close>

fun find_fomod :: "path \<Rightarrow> fsnode list \<Rightarrow> path option"
  and find_fomod_entry :: "path \<Rightarrow> fsnode \<Rightarrow> path option" where
  "find_fomod base [] = None"
| "find_fomod base (e # es) =
     (case find_fomod_entry base e of Some p \<Rightarrow> Some p | None \<Rightarrow> find_fomod base es)"
| "find_fomod_entry base (File n) = None"
| "find_fomod_entry base (Dir n es) =
     (if to_lower n = ''fomod'' \<and> fs_exists es ''ModuleConfig.xml'' then Some (Join base n)
      else find_fomod (Join base n) es)"

section \<open>The nested-folder resolver\<close>

text \<open>
  The lower-cased \<^verbatim>\<open>moduleName\<close> of the JSON file; it stays empty when the file does not
  exist or has no string under that key. \<^verbatim>\<open>parseJson\<close> throws when the file cannot be
  opened or parsed.
\<close>

definition parseJson :: "json_file \<Rightarrow> error + json" where
  "parseJson f =
     (case f of NoFile \<Rightarrow> Inl CannotOpenJson | Unreadable \<Rightarrow> Inl CannotOpenJson
      | Malformed \<Rightarrow> Inl JsonParseError | Parsed j \<Rightarrow> Inr j)"

text \<open>
  \<^verbatim>\<open>contains("moduleName") && configJson["moduleName"].is_string()\<close>, then the lower-cased
  string; likewise \<^verbatim>\<open>contains("installFiles") && config["installFiles"].is_array()\<close> further
  down.
\<close>

definition moduleName_of :: "json \<Rightarrow> string" where
  "moduleName_of configJson =
     (if contains configJson ''moduleName''
      then (case json_subscript configJson ''moduleName'' of
              Inr (JString s) \<Rightarrow> to_lower s | _ \<Rightarrow> [])
      else [])"

definition load_moduleNameLower :: "json_file \<Rightarrow> error + string" where
  "load_moduleNameLower f =
     (if f \<noteq> NoFile
      then (case parseJson f of Inl e \<Rightarrow> Inl e | Inr configJson \<Rightarrow> Inr (moduleName_of configJson))
      else Inr [])"

definition has_mod_structure :: "fsnode list \<Rightarrow> bool" where
  "has_mod_structure es =
     (fs_exists es ''SKSE'' \<or> fs_exists es ''meshes'' \<or> fs_exists es ''textures'' \<or>
      fs_exists es ''interface'' \<or> fs_exists es ''sound'' \<or> fs_exists es ''scripts'' \<or>
      fs_exists es ''seq'')"

definition mainModFolders :: "fsnode list \<Rightarrow> fsnode list" where
  "mainModFolders root = filter (\<lambda>e. is_directory e \<and> has_mod_structure (entries e)) root"

text \<open>The loop that copies what a chosen folder holds: each entry goes to \<^verbatim>\<open>modDirectory / filename\<close>.\<close>

definition copy_child :: "fsnode \<Rightarrow> fsnode \<Rightarrow> fs_op" where
  "copy_child folder e =
     (let p = Join (Join archiveRoot (entry_name folder)) (entry_name e)
      in if is_directory e then CopyFolder p (Join ModDirectory (entry_name e))
         else CopyFile p (Join ModDirectory (entry_name e)))"

definition copy_contents :: "fsnode \<Rightarrow> fs_op list" where
  "copy_contents folder = map (copy_child folder) (entries folder)"

definition add_ops :: "fs_op list \<Rightarrow> state \<Rightarrow> state" where
  "add_ops new st = st\<lparr>ops := ops st @ new\<rparr>"

definition install_nested :: "world \<Rightarrow> fsnode list \<Rightarrow> state \<Rightarrow> (error + path) \<times> state" where
  "install_nested w root st =
     (case load_moduleNameLower (json_side w) of
        Inl e \<Rightarrow> (Inl e, st)
      | Inr moduleNameLower \<Rightarrow>
          (let folders = mainModFolders root
           in if folders \<noteq> []
              then (if length folders = 1
                    then (Inr ModDirectory, add_ops (copy_contents (hd folders)) st)
                    else if moduleNameLower = [] then (Inl NoModuleName, st)
                    else (let matches = filter (\<lambda>p. to_lower (entry_name p) = moduleNameLower) folders
                          in if length matches \<noteq> 1
                             then (if matches = [] then (Inl (MatchedNoFolder moduleNameLower), st)
                                   else (Inl (MatchedMultipleFolders moduleNameLower), st))
                             else (Inr ModDirectory, add_ops (copy_contents (hd matches)) st)))
              else (Inr ModDirectory, add_ops [CopyFolder archiveRoot ModDirectory] st)))"

section \<open>The module-config engine\<close>

text \<open>
  The dispatch on the node name that the three loops over file entries share: a
  \<^verbatim>\<open>file\<close> is copied with \<^verbatim>\<open>copyFile\<close>, a \<^verbatim>\<open>folder\<close> with \<^verbatim>\<open>copyFolder\<close>, anything else
  is logged only.
\<close>

definition copy_entry :: "path \<Rightarrow> xml_node \<Rightarrow> fs_op list" where
  "copy_entry srcBase fileNode =
     (let nodeName = node_name fileNode;
          src = Join srcBase (attr_value fileNode ''source'');
          dst = Join dstBase (attr_value fileNode ''destination'')
      in if nodeName = ''file'' then [CopyFile src dst]
         else if nodeName = ''folder'' then [CopyFolder src dst]
         else [])"

definition copy_entries :: "path \<Rightarrow> xml_node list \<Rightarrow> fs_op list" where
  "copy_entries srcBase nodes = concat (map (copy_entry srcBase) nodes)"

subsection \<open>Required files\<close>

definition required_phase ::
  "xpath_engine \<Rightarrow> xml_node \<Rightarrow> path \<Rightarrow> state \<Rightarrow> error option \<times> state" where
  "required_phase xp doc srcBase st =
     (case xp doc RequiredInstallFiles of
        Inl e \<Rightarrow> (Some e, st)
      | Inr requiredNodes \<Rightarrow> (None, add_ops (copy_entries srcBase requiredNodes) st))"

subsection \<open>Plugins chosen by the selectors of the JSON file\<close>

text \<open>The walk from the plugin up to its \<^verbatim>\<open>installStep\<close>; it ends on the null handle above the document.\<close>

fun enclosing_installStep :: "xml_node \<Rightarrow> xml_node" where
  "enclosing_installStep [] = []"
| "enclosing_installStep (n # up) =
     (if node_name (n # up) \<noteq> ''installStep'' then enclosing_installStep up else n # up)"

text \<open>Whether the plugin is skipped: its step has a \<^verbatim>\<open>visible\<close> child whose dependencies are not met.\<close>

definition step_hidden :: "xml_node \<Rightarrow> flag_table \<Rightarrow> bool \<times> flag_table" where
  "step_hidden installStepNode flags =
     (if installStepNode \<noteq> []
      then (let visibleNode = child installStepNode ''visible''
            in if visibleNode \<noteq> []
               then (case areDependenciesMet visibleNode flags of (met, flags') \<Rightarrow> (\<not> met, flags'))
               else (False, flags))
      else (False, flags))"

definition plugin_files :: "path \<Rightarrow> xml_node \<Rightarrow> fs_op list" where
  "plugin_files srcBase pluginNode =
     (let filesNode = child pluginNode ''files''
      in if filesNode \<noteq> [] then copy_entries srcBase (children filesNode) else [])"

definition process_plugin :: "path \<Rightarrow> state \<Rightarrow> xml_node \<Rightarrow> state" where
  "process_plugin srcBase st pluginNode =
     (let flags1 = extractFlags pluginNode (pluginFlags st)
      in case step_hidden (enclosing_installStep pluginNode) flags1 of
           (skip, flags2) \<Rightarrow>
             if skip then st\<lparr>pluginFlags := flags2\<rparr>
             else add_ops (plugin_files srcBase pluginNode) (st\<lparr>pluginFlags := flags2\<rparr>))"

definition selector_of :: "json \<Rightarrow> error + (string \<times> string \<times> string)" where
  "selector_of entry =
     (case json_value entry ''installStep'' [] of
        Inl e \<Rightarrow> Inl e
      | Inr installStepName \<Rightarrow>
          (case json_value entry ''group'' [] of
             Inl e \<Rightarrow> Inl e
           | Inr groupName \<Rightarrow>
               (case json_subscript entry ''plugin'' of
                  Inl e \<Rightarrow> Inl e
                | Inr v \<Rightarrow>
                    (case get_string v of
                       Inl e \<Rightarrow> Inl e
                     | Inr pluginName \<Rightarrow> Inr (installStepName, groupName, pluginName)))))"

fun installFiles_loop ::
  "xpath_engine \<Rightarrow> xml_node \<Rightarrow> path \<Rightarrow> json list \<Rightarrow> state \<Rightarrow> error option \<times> state" where
  "installFiles_loop xp doc srcBase [] st = (None, st)"
| "installFiles_loop xp doc srcBase (entry # rest) st =
     (case selector_of entry of
        Inl e \<Rightarrow> (Some e, st)
      | Inr (installStepName, groupName, pluginName) \<Rightarrow>
          (case xp doc (PluginQuery installStepName groupName pluginName) of
             Inl e \<Rightarrow> (Some e, st)
           | Inr nodes \<Rightarrow>
               installFiles_loop xp doc srcBase rest (foldl (process_plugin srcBase) st nodes)))"

definition installFiles_of :: "json \<Rightarrow> json list" where
  "installFiles_of config =
     (if contains config ''installFiles''
      then (case json_subscript config ''installFiles'' of Inr (JArray xs) \<Rightarrow> xs | _ \<Rightarrow> [])
      else [])"

definition installFiles_phase ::
  "xpath_engine \<Rightarrow> xml_node \<Rightarrow> path \<Rightarrow> json \<Rightarrow> state \<Rightarrow> error option \<times> state" where
  "installFiles_phase xp doc srcBase config st =
     installFiles_loop xp doc srcBase (installFiles_of config) st"

subsection \<open>Conditional patterns\<close>

definition process_pattern :: "path \<Rightarrow> state \<Rightarrow> xml_node \<Rightarrow> state" where
  "process_pattern srcBase st pattern =
     (let dependenciesNode = child pattern ''dependencies'';
          files = copy_entries srcBase (children (child pattern ''files''))
      in if dependenciesNode \<noteq> []
         then (case areDependenciesMet dependenciesNode (pluginFlags st) of
                 (met, flags') \<Rightarrow>
                   if \<not> met then st\<lparr>pluginFlags := flags'\<rparr>
                   else add_ops files (st\<lparr>pluginFlags := flags'\<rparr>))
         else add_ops files st)"

definition patterns_phase ::
  "xpath_engine \<Rightarrow> xml_node \<Rightarrow> path \<Rightarrow> state \<Rightarrow> error option \<times> state" where
  "patterns_phase xp doc srcBase st =
     (case xp doc Patterns of
        Inl e \<Rightarrow> (Some e, st)
      | Inr patterns \<Rightarrow> (None, foldl (process_pattern srcBase) st patterns))"

subsection \<open>The whole run on a fomod folder\<close>

definition final_ops :: "fs_op list" where
  "final_ops =
     [StdCopyFile JsonPath (Join dstBase ''mo2si.json''),
      CopyFolder dstBase ModDirectory,
      RemoveAll TempDir]"

definition document :: "xml list \<Rightarrow> xml_node" where
  "document tops = [Element [] [] tops]"

definition install_fomod ::
  "xpath_engine \<Rightarrow> world \<Rightarrow> path \<Rightarrow> state \<Rightarrow> (error + path) \<times> state" where
  "install_fomod xp w fomodFolder st =
     (let srcBase = parent_path fomodFolder
      in case parseJson (json_side w) of
           Inl e \<Rightarrow> (Inl e, st)
         | Inr config \<Rightarrow>
             (case module_config w of
                None \<Rightarrow> (Inl XmlParseError, st)
              | Some tops \<Rightarrow>
                  (let doc = document tops
                   in case required_phase xp doc srcBase st of
                        (Some e, st1) \<Rightarrow> (Inl e, st1)
                      | (None, st1) \<Rightarrow>
                          (case installFiles_phase xp doc srcBase config st1 of
                             (Some e, st2) \<Rightarrow> (Inl e, st2)
                           | (None, st2) \<Rightarrow>
                               (case patterns_phase xp doc srcBase st2 of
                                  (Some e, st3) \<Rightarrow> (Inl e, st3)
                                | (None, st3) \<Rightarrow> (Inr ModDirectory, add_ops final_ops st3))))))"

section \<open>The exported entry point\<close>

text \<open>
  \<^verbatim>\<open>install(archivePath, modPath)\<close>. The second argument of the model is the value of the
  global \<^verbatim>\<open>pluginFlags\<close> when the call starts; the state that comes back holds its value
  when the call returns, and the file-system calls the run made.
\<close>

definition install :: "xpath_engine \<Rightarrow> world \<Rightarrow> flag_table \<Rightarrow> (error + path) \<times> state" where
  "install xp w flags =
     (let st = \<lparr>pluginFlags = flags, ops = []\<rparr>
      in case extracted w of
           None \<Rightarrow> (Inl ExtractFailed, st)
         | Some root \<Rightarrow>
             (case find_fomod archiveRoot root of
                None \<Rightarrow> install_nested w root st
              | Some fomodFolder \<Rightarrow> install_fomod xp w fomodFolder st))"

text \<open>
  A process that calls \<^verbatim>\<open>install\<close> again and again: the global starts empty when the
  library is loaded, and each call begins with what the call before left in it.
\<close>

fun install_all :: "xpath_engine \<Rightarrow> world list \<Rightarrow> flag_table \<Rightarrow> ((error + path) \<times> state) list" where
  "install_all xp [] flags = []"
| "install_all xp (w # ws) flags =
     (let r = install xp w flags in r # install_all xp ws (pluginFlags (snd r)))"

section \<open>Notions used to state the properties\<close>

text \<open>
  The \<^verbatim>\<open>moduleName\<close> of the override as the specification speaks of it: present when the
  JSON file was parsed to an object that holds a string under that key.
\<close>

definition override_moduleName :: "json_file \<Rightarrow> string option" where
  "override_moduleName f =
     (case f of
        Parsed (JObject kvs) \<Rightarrow> (case map_of kvs ''moduleName'' of Some (JString s) \<Rightarrow> Some s | _ \<Rightarrow> None)
      | _ \<Rightarrow> None)"

text \<open>The flag names that \<^verbatim>\<open>extractFlags\<close> assigns for a plugin node.\<close>

definition flag_names :: "xml_node \<Rightarrow> string list" where
  "flag_names pluginNode =
     filter (\<lambda>k. k \<noteq> [])
       (map (\<lambda>f. attr_value f ''name'') (children_named (child pluginNode ''conditionFlags'') ''flag''))"

text \<open>
  The plugin nodes that the selectors of the override address, in the order of the
  selectors and, for each selector, in the order of the engine's answer.
\<close>

fun selected_nodes :: "xpath_engine \<Rightarrow> xml_node \<Rightarrow> json list \<Rightarrow> xml_node list" where
  "selected_nodes xp doc [] = []"
| "selected_nodes xp doc (entry # rest) =
     (case selector_of entry of
        Inl e \<Rightarrow> []
      | Inr (s, g, p) \<Rightarrow> (case xp doc (PluginQuery s g p) of Inl e \<Rightarrow> [] | Inr nodes \<Rightarrow> nodes))
     @ selected_nodes xp doc rest"

text \<open>
  What a pattern contributes to the plan under a given flag table: its files when it has
  no \<^verbatim>\<open>dependencies\<close> child or when that child is met, nothing otherwise.
\<close>

definition pattern_ops :: "path \<Rightarrow> flag_table \<Rightarrow> xml_node \<Rightarrow> fs_op list" where
  "pattern_ops srcBase flags pattern =
     (if child pattern ''dependencies'' = [] \<or>
         fst (areDependenciesMet (child pattern ''dependencies'') flags)
      then copy_entries srcBase (children (child pattern ''files''))
      else [])"

section \<open>Example archives\<close>

text \<open>Archives without a fomod folder: two candidates, two candidates whose names differ in case only, none, one.\<close>

definition two_mods :: "fsnode list" where
  "two_mods =
     [Dir ''ModA'' [Dir ''meshes'' [], File ''a.esp''],
      File ''readme.txt'',
      Dir ''ModB'' [File ''b.esp'', Dir ''textures'' [File ''b.dds'']],
      Dir ''docs'' [File ''manual.pdf'']]"

definition twin_mods :: "fsnode list" where
  "twin_mods =
     [Dir ''ModA'' [Dir ''meshes'' [], File ''a.esp''],
      Dir ''moda'' [File ''b.esp'', Dir ''textures'' []]]"

definition loose_files :: "fsnode list" where
  "loose_files = [File ''plugin.esp'', Dir ''docs'' [File ''readme.txt''], Dir ''Data'' [Dir ''extra'' []]]"

definition one_mod :: "fsnode list" where
  "one_mod = [File ''readme.txt'', Dir ''ModX'' [File ''a.txt'', Dir ''data'' [File ''x.bin''], Dir ''meshes'' []]]"

definition named :: "string \<Rightarrow> json_file" where
  "named s = Parsed (JObject [(''moduleName'', JString s)])"

definition nested_world :: "fsnode list \<Rightarrow> json_file \<Rightarrow> world" where
  "nested_world root f = \<lparr>extracted = Some root, json_side = f, module_config = None\<rparr>"

text \<open>
  Archives with a fomod folder. The first is the example of the specification: the plugin
  HD sets Quality to High, and its step is visible only when Quality is Low. The second has
  no selector at all and one pattern that asks for Quality to be High. The third states
  its patterns before its install steps, and the selector that sets the flag comes last.
\<close>

definition quality_config :: "xml list" where
  "quality_config =
     [Element ''config'' []
        [Element ''requiredInstallFiles'' []
           [Element ''file'' [(''source'', ''core.esp''), (''destination'', ''core.esp'')] []],
         Element ''installSteps'' []
           [Element ''installStep'' [(''name'', ''Textures'')]
              [Element ''visible'' []
                 [Element ''flagDependency'' [(''flag'', ''Quality''), (''value'', ''Low'')] []],
               Element ''optionalFileGroups'' []
                 [Element ''group'' [(''name'', ''Resolution'')]
                    [Element ''plugins'' []
                       [Element ''plugin'' [(''name'', ''HD'')]
                          [Element ''files'' []
                             [Element ''folder''
                                [(''source'', ''hd''), (''destination'', ''textures'')] []],
                           Element ''conditionFlags'' []
                             [Element ''flag'' [(''name'', ''Quality'')] [PCData ''High'']]]]]]]]]]"

definition quality_selector :: json where
  "quality_selector =
     JObject [(''installStep'', JString ''Textures''), (''group'', JString ''Resolution''),
              (''plugin'', JString ''HD'')]"

definition fomod_tree :: "fsnode list" where
  "fomod_tree = [File ''core.esp'', Dir ''Fomod'' [File ''ModuleConfig.xml''], Dir ''hd'' []]"

definition quality_world :: world where
  "quality_world =
     \<lparr>extracted = Some fomod_tree,
      json_side = Parsed (JObject [(''installFiles'', JArray [quality_selector])]),
      module_config = Some quality_config\<rparr>"

definition quality_plugin :: xml_node where
  "quality_plugin = hd (selected_nodes select_nodes (document quality_config) [quality_selector])"

definition plain_config :: "xml list" where
  "plain_config =
     [Element ''config'' []
        [Element ''conditionalFileInstalls'' []
           [Element ''patterns'' []
              [Element ''pattern'' []
                 [Element ''dependencies'' []
                    [Element ''flagDependency'' [(''flag'', ''Quality''), (''value'', ''High'')] []],
                  Element ''files'' []
                    [Element ''file'' [(''source'', ''hq.esp''), (''destination'', ''hq.esp'')] []]]]]]]"

definition plain_world :: world where
  "plain_world =
     \<lparr>extracted = Some fomod_tree, json_side = Parsed (JObject []),
      module_config = Some plain_config\<rparr>"

definition no_json_world :: world where
  "no_json_world =
     \<lparr>extracted = Some fomod_tree, json_side = NoFile, module_config = Some quality_config\<rparr>"

definition late_config :: "xml list" where
  "late_config =
     [Element ''config'' []
        [Element ''conditionalFileInstalls'' []
           [Element ''patterns'' []
              [Element ''pattern'' []
                 [Element ''dependencies'' [(''operator'', ''And'')]
                    [Element ''flagDependency'' [(''flag'', ''UseB''), (''value'', ''On'')] []],
                  Element ''files'' []
                    [Element ''file''
                       [(''source'', ''b_patch.esp''), (''destination'', ''b_patch.esp'')] []]],
               Element ''pattern'' []
                 [Element ''dependencies'' [(''operator'', ''Or'')]
                    [Element ''flagDependency'' [(''flag'', ''UseC''), (''value'', ''On'')] []],
                  Element ''files'' []
                    [Element ''file''
                       [(''source'', ''c_patch.esp''), (''destination'', ''c_patch.esp'')] []]]]],
         Element ''installSteps'' []
           [Element ''installStep'' [(''name'', ''Options'')]
              [Element ''optionalFileGroups'' []
                 [Element ''group'' [(''name'', ''Main'')]
                    [Element ''plugins'' []
                       [Element ''plugin'' [(''name'', ''A'')]
                          [Element ''files'' []
                             [Element ''file'' [(''source'', ''a.esp''), (''destination'', ''a.esp'')] []]],
                        Element ''plugin'' [(''name'', ''B'')]
                          [Element ''files'' []
                             [Element ''folder'' [(''source'', ''b''), (''destination'', ''b'')] []],
                           Element ''conditionFlags'' []
                             [Element ''flag'' [(''name'', ''UseB'')] [PCData ''On'']]]]]]]]]]"

definition late_override :: json where
  "late_override =
     JObject [(''installFiles'',
       JArray [JObject [(''installStep'', JString ''Options''), (''group'', JString ''Main''),
                        (''plugin'', JString ''A'')],
               JObject [(''installStep'', JString ''Options''), (''group'', JString ''Main''),
                        (''plugin'', JString ''B'')]])]"

definition late_world :: world where
  "late_world =
     \<lparr>extracted = Some fomod_tree, json_side = Parsed late_override,
      module_config = Some late_config\<rparr>"

section \<open>Properties of the dependency evaluator\<close>

lemma subscript_present: "flags k = Some v \<Longrightarrow> subscript flags k = (v, flags)"
  by (simp add: subscript_def)

lemma flagMatches_table: "snd (flagMatches d flags) = flags"
  by (auto simp: flagMatches_def Let_def subscript_def split: option.splits)

lemma flagMatches_value:
  "fst (flagMatches d flags) \<longleftrightarrow> flags (attr_value d ''flag'') = Some (attr_value d ''value'')"
  by (auto simp: flagMatches_def Let_def subscript_def split: option.splits)

lemma areDependenciesMet_loop_table: "snd (areDependenciesMet_loop opr ds r flags) = flags"
proof (induction ds arbitrary: r)
  case Nil
  show ?case by simp
next
  case (Cons d ds)
  obtain m where m: "flagMatches d flags = (m, flags)"
    using flagMatches_table [of d flags] by (cases "flagMatches d flags") simp
  show ?case by (simp add: m Cons.IH)
qed

lemma areDependenciesMet_table: "snd (areDependenciesMet h flags) = flags"
  by (simp add: areDependenciesMet_def Let_def areDependenciesMet_loop_table)

lemma areDependenciesMet_loop_other:
  "opr \<noteq> ''And'' \<Longrightarrow> opr \<noteq> ''Or'' \<Longrightarrow> fst (areDependenciesMet_loop opr ds r flags) = r"
proof (induction ds arbitrary: r)
  case Nil
  show ?case by simp
next
  case (Cons d ds)
  obtain m where m: "flagMatches d flags = (m, flags)"
    using flagMatches_table [of d flags] by (cases "flagMatches d flags") simp
  from Cons show ?case by (simp add: m)
qed

lemma areDependenciesMet_pair: "areDependenciesMet h flags = (fst (areDependenciesMet h flags), flags)"
  using areDependenciesMet_table [of h flags] by (cases "areDependenciesMet h flags") simp

lemma process_pattern_flags: "pluginFlags (process_pattern srcBase st p) = pluginFlags st"
proof (cases "child p ''dependencies'' = []")
  case True
  then show ?thesis by (simp add: process_pattern_def add_ops_def)
next
  case False
  obtain met where met:
    "areDependenciesMet (child p ''dependencies'') (pluginFlags st) = (met, pluginFlags st)"
    using areDependenciesMet_pair by blast
  from False show ?thesis by (simp add: process_pattern_def add_ops_def met)
qed

lemma foldl_process_pattern_flags:
  "pluginFlags (foldl (process_pattern srcBase) st ps) = pluginFlags st"
  by (induction ps arbitrary: st) (simp_all add: process_pattern_flags)

text \<open>
  C4. A dependencies node without any \<^verbatim>\<open><flagDependency>\<close> child is met when its operator
  is And, and when it has no operator attribute (And is the default), and it is not met
  when its operator is Or; the flag table plays no part.
\<close>

theorem C4_zero_assertions:
  assumes "children_named h ''flagDependency'' = []"
  shows "(attribute h ''operator'' = Some ''And'' \<longrightarrow> fst (areDependenciesMet h flags)) \<and>
         (attribute h ''operator'' = None \<longrightarrow> fst (areDependenciesMet h flags)) \<and>
         (attribute h ''operator'' = Some ''Or'' \<longrightarrow> \<not> fst (areDependenciesMet h flags))"
  using assms by (simp add: areDependenciesMet_def attr_as_string_def)

theorem C4_zero_assertions_witness:
  "fst (areDependenciesMet [Element ''dependencies'' [(''operator'', ''And'')] []] Map.empty) \<and>
   fst (areDependenciesMet [Element ''visible'' [] []] [''Quality'' \<mapsto> ''High'']) \<and>
   \<not> fst (areDependenciesMet [Element ''dependencies'' [(''operator'', ''Or'')] []]
            [''Quality'' \<mapsto> ''High''])"
  using C4_zero_assertions [of "[Element ''dependencies'' [(''operator'', ''And'')] []]" Map.empty]
    C4_zero_assertions [of "[Element ''visible'' [] []]" "[''Quality'' \<mapsto> ''High'']"]
    C4_zero_assertions [of "[Element ''dependencies'' [(''operator'', ''Or'')] []]"
      "[''Quality'' \<mapsto> ''High'']"]
  by (simp add: children_named_def attribute_def)

text \<open>
  C5. A flag assertion is satisfied exactly when its flag name is a key of the table and
  the value stored under it is the required value, character for character; an assertion
  on a flag that is not in the table is not satisfied.
\<close>

theorem C5_assertion_satisfied:
  "(fst (flagMatches d flags) \<longleftrightarrow>
      attr_value d ''flag'' \<in> dom flags \<and>
      flags (attr_value d ''flag'') = Some (attr_value d ''value'')) \<and>
   (attr_value d ''flag'' \<notin> dom flags \<longrightarrow> \<not> fst (flagMatches d flags))"
  by (auto simp: flagMatches_value)

theorem C5_assertion_satisfied_witness:
  "''Quality'' \<notin> dom (Map.empty :: flag_table) \<and>
   \<not> fst (flagMatches [Element ''flagDependency'' [(''flag'', ''Quality''), (''value'', ''High'')] []]
            Map.empty) \<and>
   \<not> fst (flagMatches [Element ''flagDependency'' [(''flag'', ''Quality''), (''value'', ''high'')] []]
            [''Quality'' \<mapsto> ''High'']) \<and>
   fst (flagMatches [Element ''flagDependency'' [(''flag'', ''Quality''), (''value'', ''High'')] []]
            [''Quality'' \<mapsto> ''High''])"
  using C5_assertion_satisfied
      [of "[Element ''flagDependency'' [(''flag'', ''Quality''), (''value'', ''High'')] []]" Map.empty]
    C5_assertion_satisfied
      [of "[Element ''flagDependency'' [(''flag'', ''Quality''), (''value'', ''high'')] []]"
          "[''Quality'' \<mapsto> ''High'']"]
    C5_assertion_satisfied
      [of "[Element ''flagDependency'' [(''flag'', ''Quality''), (''value'', ''High'')] []]"
          "[''Quality'' \<mapsto> ''High'']"]
  by (simp add: attr_value_def attribute_def)

text \<open>
  C9. Evaluating a dependencies node hands back the flag table it was given, and the whole
  loop over the conditional patterns leaves the flag table as it found it, whatever nodes
  the pattern query answers.
\<close>

theorem C9_evaluation_keeps_flags:
  "snd (areDependenciesMet h flags) = flags \<and>
   pluginFlags (snd (patterns_phase xp doc srcBase st)) = pluginFlags st"
  by (simp add: areDependenciesMet_table patterns_phase_def foldl_process_pattern_flags
      split: sum.splits)

text \<open>
  C10. A dependencies node whose operator attribute is there but is neither And nor Or is
  not met, whatever its assertions and whatever the flag table.
\<close>

theorem C10_unknown_operator:
  assumes "attribute h ''operator'' = Some opr" and "opr \<noteq> ''And''" and "opr \<noteq> ''Or''"
  shows "\<not> fst (areDependenciesMet h flags)"
  using assms by (simp add: areDependenciesMet_def attr_as_string_def areDependenciesMet_loop_other)

theorem C10_unknown_operator_witness:
  "fst (flagMatches [Element ''flagDependency'' [(''flag'', ''Quality''), (''value'', ''High'')] [],
                     Element ''dependencies'' [(''operator'', ''Xor'')]
                       [Element ''flagDependency'' [(''flag'', ''Quality''), (''value'', ''High'')] []]]
          [''Quality'' \<mapsto> ''High'']) \<and>
   \<not> fst (areDependenciesMet
            [Element ''dependencies'' [(''operator'', ''Xor'')]
               [Element ''flagDependency'' [(''flag'', ''Quality''), (''value'', ''High'')] []]]
            [''Quality'' \<mapsto> ''High''])"
  using C10_unknown_operator
      [of "[Element ''dependencies'' [(''operator'', ''Xor'')]
              [Element ''flagDependency'' [(''flag'', ''Quality''), (''value'', ''High'')] []]]"
          "''Xor''" "[''Quality'' \<mapsto> ''High'']"]
  by (simp add: attribute_def flagMatches_value attr_value_def)

section \<open>Properties of the nested-folder resolver\<close>

lemma to_lower_empty: "to_lower s = [] \<longleftrightarrow> s = []"
  by (simp add: to_lower_def)

lemma load_moduleNameLower_override:
  assumes "f = NoFile \<or> (\<exists>j. f = Parsed j)"
  shows "load_moduleNameLower f =
           Inr (case override_moduleName f of None \<Rightarrow> [] | Some s \<Rightarrow> to_lower s)"
  using assms
  by (auto simp: load_moduleNameLower_def parseJson_def moduleName_of_def override_moduleName_def
      contains_def json_subscript_def split: json.splits option.splits)

lemma install_nested_path:
  assumes "extracted w = Some root" and "find_fomod archiveRoot root = None"
  shows "install xp w flags = install_nested w root \<lparr>pluginFlags = flags, ops = []\<rparr>"
  using assms by (simp add: install_def)

lemma copy_child_fun:
  "copy_child c =
     (\<lambda>e. (if is_directory e then CopyFolder else CopyFile)
             (Join (Join archiveRoot (entry_name c)) (entry_name e))
             (Join ModDirectory (entry_name e)))"
  by (rule ext) (simp add: copy_child_def)

lemma two_mods_found:
  "find_fomod archiveRoot two_mods = None"
  "mainModFolders two_mods =
     [Dir ''ModA'' [Dir ''meshes'' [], File ''a.esp''],
      Dir ''ModB'' [File ''b.esp'', Dir ''textures'' [File ''b.dds'']]]"
  by code_simp+

lemma twin_mods_found:
  "find_fomod archiveRoot twin_mods = None"
  "mainModFolders twin_mods =
     [Dir ''ModA'' [Dir ''meshes'' [], File ''a.esp''],
      Dir ''moda'' [File ''b.esp'', Dir ''textures'' []]]"
  by code_simp+

lemma loose_files_found:
  "find_fomod archiveRoot loose_files = None" "mainModFolders loose_files = []"
  by code_simp+

lemma one_mod_found:
  "find_fomod archiveRoot one_mod = None"
  "mainModFolders one_mod = [Dir ''ModX'' [File ''a.txt'', Dir ''data'' [File ''x.bin''], Dir ''meshes'' []]]"
  by code_simp+

lemma lowered:
  "to_lower ''ModA'' = ''moda''" "to_lower ''ModB'' = ''modb''" "to_lower ''moda'' = ''moda''"
  "to_lower ''modb'' = ''modb''" "to_lower ''ModC'' = ''modc''" "to_lower ''MODA'' = ''moda''"
  by code_simp+

text \<open>
  C7. An archive without a fomod folder and with more than one candidate folder, the JSON
  file being absent or parsed: without a \<^verbatim>\<open>moduleName\<close>, or with an empty one, the run
  fails for want of a name to disambiguate with; otherwise the candidates whose lower-cased
  name is the lower-cased \<^verbatim>\<open>moduleName\<close> decide: none of them, the run fails with
  "did not match any folder"; several, it fails with "matched multiple folders"; exactly
  one, its contents are copied and the run succeeds.
\<close>

theorem C7_disambiguation:
  assumes nested: "extracted w = Some root" "find_fomod archiveRoot root = None"
      and json: "json_side w = NoFile \<or> (\<exists>j. json_side w = Parsed j)"
      and many: "1 < length (mainModFolders root)"
  shows "install xp w flags =
           (case override_moduleName (json_side w) of
              None \<Rightarrow> (Inl NoModuleName, \<lparr>pluginFlags = flags, ops = []\<rparr>)
            | Some name \<Rightarrow>
                if name = [] then (Inl NoModuleName, \<lparr>pluginFlags = flags, ops = []\<rparr>)
                else (case filter (\<lambda>p. to_lower (entry_name p) = to_lower name)
                             (mainModFolders root) of
                        [] \<Rightarrow> (Inl (MatchedNoFolder (to_lower name)),
                               \<lparr>pluginFlags = flags, ops = []\<rparr>)
                      | [chosen] \<Rightarrow> (Inr ModDirectory,
                                     \<lparr>pluginFlags = flags, ops = copy_contents chosen\<rparr>)
                      | _ \<Rightarrow> (Inl (MatchedMultipleFolders (to_lower name)),
                              \<lparr>pluginFlags = flags, ops = []\<rparr>)))"
proof -
  from many have ne: "mainModFolders root \<noteq> []" "length (mainModFolders root) \<noteq> 1"
    by auto
  show ?thesis
    unfolding install_nested_path [OF nested] install_nested_def
      load_moduleNameLower_override [OF json]
    using ne by (simp add: Let_def to_lower_empty add_ops_def split: option.splits list.splits)
qed

theorem C7_disambiguation_witness:
  "install select_nodes (nested_world two_mods NoFile) Map.empty =
     (Inl NoModuleName, \<lparr>pluginFlags = Map.empty, ops = []\<rparr>) \<and>
   install select_nodes (nested_world two_mods (named [])) Map.empty =
     (Inl NoModuleName, \<lparr>pluginFlags = Map.empty, ops = []\<rparr>) \<and>
   install select_nodes (nested_world two_mods (named ''ModC'')) Map.empty =
     (Inl (MatchedNoFolder ''modc''), \<lparr>pluginFlags = Map.empty, ops = []\<rparr>) \<and>
   install select_nodes (nested_world twin_mods (named ''MODA'')) Map.empty =
     (Inl (MatchedMultipleFolders ''moda''), \<lparr>pluginFlags = Map.empty, ops = []\<rparr>) \<and>
   install select_nodes (nested_world two_mods (named ''modb'')) Map.empty =
     (Inr ModDirectory,
      \<lparr>pluginFlags = Map.empty,
       ops = [CopyFile (Join (Join archiveRoot ''ModB'') ''b.esp'') (Join ModDirectory ''b.esp''),
              CopyFolder (Join (Join archiveRoot ''ModB'') ''textures'')
                (Join ModDirectory ''textures'')]\<rparr>)"
  using C7_disambiguation [of "nested_world two_mods NoFile" two_mods select_nodes Map.empty]
    C7_disambiguation [of "nested_world two_mods (named [])" two_mods select_nodes Map.empty]
    C7_disambiguation [of "nested_world two_mods (named ''ModC'')" two_mods select_nodes Map.empty]
    C7_disambiguation [of "nested_world twin_mods (named ''MODA'')" twin_mods select_nodes Map.empty]
    C7_disambiguation [of "nested_world two_mods (named ''modb'')" two_mods select_nodes Map.empty]
  by (simp add: nested_world_def named_def two_mods_found twin_mods_found lowered
      override_moduleName_def copy_contents_def copy_child_def)

text \<open>
  C8. An archive without a fomod folder, the JSON file being absent or parsed: with no
  candidate folder the run makes one folder copy, of the archive root to the mod directory,
  and succeeds; with one candidate \<open>c\<close> the run copies each entry \<open>e\<close> of \<open>c\<close> from
  \<^verbatim>\<open>archiveRoot / c / e\<close> to \<^verbatim>\<open>modDirectory / e\<close>, a folder as a folder and a file as a
  file, and succeeds: the destination has the entry's own name right under the mod
  directory, and the candidate is no level of it.
\<close>

theorem C8_zero_or_one:
  assumes nested: "extracted w = Some root" "find_fomod archiveRoot root = None"
      and json: "json_side w = NoFile \<or> (\<exists>j. json_side w = Parsed j)"
  shows "(mainModFolders root = [] \<longrightarrow>
            install xp w flags =
              (Inr ModDirectory,
               \<lparr>pluginFlags = flags, ops = [CopyFolder archiveRoot ModDirectory]\<rparr>)) \<and>
         (\<forall>c. mainModFolders root = [c] \<longrightarrow>
            install xp w flags =
              (Inr ModDirectory,
               \<lparr>pluginFlags = flags,
                ops = map (\<lambda>e. (if is_directory e then CopyFolder else CopyFile)
                                 (Join (Join archiveRoot (entry_name c)) (entry_name e))
                                 (Join ModDirectory (entry_name e)))
                          (entries c)\<rparr>))"
  unfolding install_nested_path [OF nested] install_nested_def
    load_moduleNameLower_override [OF json]
  by (simp add: Let_def copy_contents_def copy_child_fun add_ops_def)

theorem C8_zero_or_one_witness:
  "install select_nodes (nested_world loose_files NoFile) Map.empty =
     (Inr ModDirectory,
      \<lparr>pluginFlags = Map.empty, ops = [CopyFolder archiveRoot ModDirectory]\<rparr>) \<and>
   install select_nodes (nested_world one_mod (named ''other'')) Map.empty =
     (Inr ModDirectory,
      \<lparr>pluginFlags = Map.empty,
       ops = [CopyFile (Join (Join archiveRoot ''ModX'') ''a.txt'') (Join ModDirectory ''a.txt''),
              CopyFolder (Join (Join archiveRoot ''ModX'') ''data'') (Join ModDirectory ''data''),
              CopyFolder (Join (Join archiveRoot ''ModX'') ''meshes'')
                (Join ModDirectory ''meshes'')]\<rparr>)"
  using C8_zero_or_one [of "nested_world loose_files NoFile" loose_files select_nodes Map.empty]
    C8_zero_or_one [of "nested_world one_mod (named ''other'')" one_mod select_nodes Map.empty]
  by (simp add: nested_world_def named_def loose_files_found one_mod_found)

section \<open>Properties of the module-config engine\<close>

lemma install_without_json:
  assumes "extracted w = Some root" and "find_fomod archiveRoot root = Some f"
      and "json_side w = NoFile"
  shows "install xp w flags = (Inl CannotOpenJson, \<lparr>pluginFlags = flags, ops = []\<rparr>)"
  using assms by (simp add: install_def install_fomod_def parseJson_def)

lemma extractFlags_loop_append:
  "extractFlags_loop (xs @ ys) fl = extractFlags_loop ys (extractFlags_loop xs fl)"
  by (induction xs arbitrary: fl) (simp_all add: Let_def)

lemma extractFlags_loop_other:
  "\<forall>g\<in>set gs. attr_value g ''name'' \<noteq> k \<Longrightarrow> extractFlags_loop gs fl k = fl k"
  by (induction gs arbitrary: fl) (auto simp: Let_def)

lemma extractFlags_loop_last:
  assumes "attr_value f ''name'' \<noteq> []"
      and "\<forall>g\<in>set after. attr_value g ''name'' \<noteq> attr_value f ''name''"
  shows "extractFlags_loop (before @ f # after) fl (attr_value f ''name'') = Some (text_as_string f)"
  using assms by (simp add: extractFlags_loop_append extractFlags_loop_other Let_def)

lemma dom_extractFlags_loop:
  "dom (extractFlags_loop fs fl) =
     dom fl \<union> set (filter (\<lambda>k. k \<noteq> []) (map (\<lambda>f. attr_value f ''name'') fs))"
  by (induction fs arbitrary: fl) (auto simp: Let_def)

lemma child_null: "child [] k = []"
  by (simp add: child_def children_named_def)

lemma dom_extractFlags: "dom (extractFlags n fl) = dom fl \<union> set (flag_names n)"
  by (simp add: extractFlags_def flag_names_def dom_extractFlags_loop Let_def
      children_named_def)

lemma step_hidden_pair:
  "step_hidden s fl =
     (child s ''visible'' \<noteq> [] \<and> \<not> fst (areDependenciesMet (child s ''visible'') fl), fl)"
proof (cases "s \<noteq> [] \<and> child s ''visible'' \<noteq> []")
  case True
  obtain met where met: "areDependenciesMet (child s ''visible'') fl = (met, fl)"
    using areDependenciesMet_pair by blast
  from True show ?thesis by (simp add: step_hidden_def met)
next
  case False
  then show ?thesis by (auto simp: step_hidden_def child_null)
qed

lemma process_plugin_flags:
  "pluginFlags (process_plugin srcBase st n) = extractFlags n (pluginFlags st)"
  by (simp add: process_plugin_def step_hidden_pair Let_def add_ops_def)

lemma process_plugin_ops:
  "ops (process_plugin srcBase st n) =
     ops st @
     (if child (enclosing_installStep n) ''visible'' \<noteq> [] \<and>
         \<not> fst (areDependenciesMet (child (enclosing_installStep n) ''visible'')
                  (extractFlags n (pluginFlags st)))
      then [] else plugin_files srcBase n)"
  by (simp add: process_plugin_def step_hidden_pair Let_def add_ops_def)

lemma foldl_process_plugin_flags:
  "pluginFlags (foldl (process_plugin srcBase) st ns) =
     foldl (\<lambda>fl n. extractFlags n fl) (pluginFlags st) ns"
  by (induction ns arbitrary: st) (simp_all add: process_plugin_flags)

lemma installFiles_loop_flags:
  "installFiles_loop xp doc srcBase es st = (None, st') \<Longrightarrow>
     pluginFlags st' =
       foldl (\<lambda>fl n. extractFlags n fl) (pluginFlags st) (selected_nodes xp doc es)"
proof (induction es arbitrary: st)
  case Nil
  then show ?case by simp
next
  case (Cons e es)
  then show ?case
    by (auto simp: foldl_process_plugin_flags split: sum.splits prod.splits)
qed

lemma dom_foldl_extractFlags_mono:
  "dom fl \<subseteq> dom (foldl (\<lambda>fl n. extractFlags n fl) fl ns)"
proof (induction ns arbitrary: fl)
  case Nil
  show ?case by simp
next
  case (Cons n ns)
  have "dom fl \<subseteq> dom (extractFlags n fl)" by (simp add: dom_extractFlags)
  also have "\<dots> \<subseteq> dom (foldl (\<lambda>fl n. extractFlags n fl) (extractFlags n fl) ns)"
    by (rule Cons.IH)
  finally show ?case by simp
qed

lemma dom_foldl_extractFlags:
  "n \<in> set ns \<Longrightarrow> set (flag_names n) \<subseteq> dom (foldl (\<lambda>fl n. extractFlags n fl) fl ns)"
proof (induction ns arbitrary: fl)
  case Nil
  then show ?case by simp
next
  case (Cons m ns)
  show ?case
  proof (cases "n = m")
    case True
    have "set (flag_names n) \<subseteq> dom (extractFlags n fl)" by (simp add: dom_extractFlags)
    also have "\<dots> \<subseteq> dom (foldl (\<lambda>fl n. extractFlags n fl) (extractFlags n fl) ns)"
      by (rule dom_foldl_extractFlags_mono)
    finally show ?thesis using True by simp
  next
    case False
    with Cons.prems have "n \<in> set ns" by simp
    then show ?thesis using Cons.IH by simp
  qed
qed

lemma process_pattern_ops:
  "ops (process_pattern srcBase st p) = ops st @ pattern_ops srcBase (pluginFlags st) p"
proof (cases "child p ''dependencies'' = []")
  case True
  then show ?thesis by (simp add: process_pattern_def pattern_ops_def add_ops_def)
next
  case False
  obtain met where met:
    "areDependenciesMet (child p ''dependencies'') (pluginFlags st) = (met, pluginFlags st)"
    using areDependenciesMet_pair by blast
  from False show ?thesis
    by (simp add: process_pattern_def pattern_ops_def add_ops_def met)
qed

lemma foldl_process_pattern_ops:
  "ops (foldl (process_pattern srcBase) st ps) =
     ops st @ concat (map (pattern_ops srcBase (pluginFlags st)) ps)"
  by (induction ps arbitrary: st) (simp_all add: process_pattern_ops process_pattern_flags)

lemma required_phase_flags:
  "pluginFlags (snd (required_phase xp doc srcBase st)) = pluginFlags st"
  by (simp add: required_phase_def add_ops_def split: sum.splits)

text \<open>
  C3. Processing a matched plugin node: the flag table afterwards is the table before with
  the plugin's \<^verbatim>\<open>conditionFlags\<close> applied, whether or not the step is visible; the
  \<^verbatim>\<open>visible\<close> child of the enclosing \<^verbatim>\<open>installStep\<close> is evaluated on that updated table;
  the plugin's files are added to the plan unless that evaluation fails, in which case the
  plan stays as it was; and every \<^verbatim>\<open><flag>\<close> with a name that no later \<^verbatim>\<open><flag>\<close> of the
  plugin repeats is in the table with its text as value.
\<close>

theorem C3_flags_before_visibility:
  "let flags' = extractFlags pluginNode (pluginFlags st);
       visibleNode = child (enclosing_installStep pluginNode) ''visible'';
       unsatisfied = (visibleNode \<noteq> [] \<and> \<not> fst (areDependenciesMet visibleNode flags'));
       st' = process_plugin srcBase st pluginNode
   in pluginFlags st' = flags' \<and>
      ops st' = ops st @ (if unsatisfied then [] else plugin_files srcBase pluginNode) \<and>
      (\<forall>before f after.
         children_named (child pluginNode ''conditionFlags'') ''flag'' = before @ f # after \<and>
         attr_value f ''name'' \<noteq> [] \<and>
         (\<forall>g\<in>set after. attr_value g ''name'' \<noteq> attr_value f ''name'') \<longrightarrow>
         pluginFlags st' (attr_value f ''name'') = Some (text_as_string f))"
proof -
  have last: "extractFlags pluginNode fl (attr_value f ''name'') = Some (text_as_string f)"
    if "children_named (child pluginNode ''conditionFlags'') ''flag'' = before @ f # after"
      and "attr_value f ''name'' \<noteq> []"
      and "\<forall>g\<in>set after. attr_value g ''name'' \<noteq> attr_value f ''name''"
    for before f after fl
  proof -
    from that(1) have "child pluginNode ''conditionFlags'' \<noteq> []"
      by (auto simp: children_named_def)
    with that show ?thesis
      by (simp add: extractFlags_def extractFlags_loop_last)
  qed
  show ?thesis
    unfolding Let_def process_plugin_flags process_plugin_ops
    using last by blast
qed

theorem C3_flags_before_visibility_witness:
  "pluginFlags (process_plugin archiveRoot \<lparr>pluginFlags = Map.empty, ops = []\<rparr> quality_plugin)
     ''Quality'' = Some ''High'' \<and>
   plugin_files archiveRoot quality_plugin =
     [CopyFolder (Join archiveRoot ''hd'') (Join dstBase ''textures'')] \<and>
   ops (process_plugin archiveRoot \<lparr>pluginFlags = Map.empty, ops = []\<rparr> quality_plugin) = []"
proof -
  let ?st = "\<lparr>pluginFlags = Map.empty, ops = []\<rparr> :: state"
  let ?flags = "children_named (child quality_plugin ''conditionFlags'') ''flag''"
  have one: "?flags = [] @ hd ?flags # []"
    by code_simp
  have name: "attr_value (hd ?flags) ''name'' = ''Quality''"
    by code_simp
  have val: "text_as_string (hd ?flags) = ''High''"
    by code_simp
  have hidden:
    "child (enclosing_installStep quality_plugin) ''visible'' \<noteq> [] \<and>
     \<not> fst (areDependenciesMet (child (enclosing_installStep quality_plugin) ''visible'')
              (extractFlags quality_plugin Map.empty))"
    by code_simp
  have files: "plugin_files archiveRoot quality_plugin =
      [CopyFolder (Join archiveRoot ''hd'') (Join dstBase ''textures'')]"
    by code_simp
  note C3 = C3_flags_before_visibility [of quality_plugin ?st archiveRoot, unfolded Let_def]
  from C3 hidden have "ops (process_plugin archiveRoot ?st quality_plugin) = []"
    by simp
  moreover have "pluginFlags (process_plugin archiveRoot ?st quality_plugin) ''Quality'' = Some ''High''"
    using C3 [THEN conjunct2, THEN conjunct2, rule_format, of "[]" "hd ?flags" "[]"] one name val
    by simp
  ultimately show ?thesis using files by simp
qed

text \<open>
  C2. In every run on a fomod folder that gets through, the flag table against which the
  conditional patterns are evaluated is the table left by the processing of all selectors:
  the start table with the \<^verbatim>\<open>conditionFlags\<close> of every selected plugin applied in order. It
  has every flag name that any selected plugin assigns, it is the table the run ends with,
  and the plan is what the required files and the selectors produced, followed by the
  files of each pattern that this one table enables, followed by the closing copies.
\<close>

theorem C2_patterns_after_selectors:
  assumes ok: "fst (install_fomod xp w fomodFolder st) = Inr r"
      and json: "json_side w = Parsed config"
      and xml: "module_config w = Some tops"
      and pats: "xp (document tops) Patterns = Inr patterns"
  shows "let doc = document tops;
             srcBase = parent_path fomodFolder;
             chosen = selected_nodes xp doc (installFiles_of config);
             stB = snd (installFiles_phase xp doc srcBase config
                          (snd (required_phase xp doc srcBase st)));
             st' = snd (install_fomod xp w fomodFolder st)
         in pluginFlags stB = foldl (\<lambda>fl n. extractFlags n fl) (pluginFlags st) chosen \<and>
            (\<forall>n\<in>set chosen. set (flag_names n) \<subseteq> dom (pluginFlags stB)) \<and>
            pluginFlags st' = pluginFlags stB \<and>
            ops st' = ops stB @ concat (map (pattern_ops srcBase (pluginFlags stB)) patterns)
                        @ final_ops"
proof -
  define doc where "doc = document tops"
  define srcBase where "srcBase = parent_path fomodFolder"
  define stA where "stA = snd (required_phase xp doc srcBase st)"
  define stB where "stB = snd (installFiles_phase xp doc srcBase config stA)"
  have A: "required_phase xp doc srcBase st = (None, stA)"
    using ok json xml
    by (cases "required_phase xp doc srcBase st")
      (auto simp: install_fomod_def parseJson_def doc_def srcBase_def stA_def Let_def
        split: option.splits)
  have B: "installFiles_phase xp doc srcBase config stA = (None, stB)"
    using ok json xml A
    by (cases "installFiles_phase xp doc srcBase config stA")
      (auto simp: install_fomod_def parseJson_def doc_def srcBase_def stB_def Let_def
        split: option.splits)
  have C: "patterns_phase xp doc srcBase stB =
             (None, foldl (process_pattern srcBase) stB patterns)"
    using pats by (simp add: patterns_phase_def doc_def)
  have run: "snd (install_fomod xp w fomodFolder st) =
               add_ops final_ops (foldl (process_pattern srcBase) stB patterns)"
    using json xml A B C
    by (simp add: install_fomod_def parseJson_def doc_def srcBase_def Let_def)
  have flagsB: "pluginFlags stB =
      foldl (\<lambda>fl n. extractFlags n fl) (pluginFlags st)
        (selected_nodes xp doc (installFiles_of config))"
    using installFiles_loop_flags [of xp doc srcBase "installFiles_of config" stA stB] B
      required_phase_flags [of xp doc srcBase st]
    by (simp add: installFiles_phase_def stA_def)
  have "\<forall>n\<in>set (selected_nodes xp doc (installFiles_of config)).
          set (flag_names n) \<subseteq> dom (pluginFlags stB)"
    unfolding flagsB using dom_foldl_extractFlags by blast
  moreover have "pluginFlags (snd (install_fomod xp w fomodFolder st)) = pluginFlags stB"
    by (simp add: run add_ops_def foldl_process_pattern_flags)
  moreover have "ops (snd (install_fomod xp w fomodFolder st)) =
      ops stB @ concat (map (pattern_ops srcBase (pluginFlags stB)) patterns) @ final_ops"
    by (simp add: run add_ops_def foldl_process_pattern_ops)
  ultimately show ?thesis
    using flagsB unfolding Let_def doc_def srcBase_def stA_def stB_def by blast
qed

theorem C2_patterns_after_selectors_witness:
  "fst (install_fomod select_nodes late_world (Join archiveRoot ''Fomod'')
          \<lparr>pluginFlags = Map.empty, ops = []\<rparr>) = Inr ModDirectory \<and>
   ''UseB'' \<in> dom (pluginFlags (snd (install_fomod select_nodes late_world (Join archiveRoot ''Fomod'')
          \<lparr>pluginFlags = Map.empty, ops = []\<rparr>))) \<and>
   ops (snd (install_fomod select_nodes late_world (Join archiveRoot ''Fomod'')
          \<lparr>pluginFlags = Map.empty, ops = []\<rparr>)) =
     [CopyFile (Join archiveRoot ''a.esp'') (Join dstBase ''a.esp''),
      CopyFolder (Join archiveRoot ''b'') (Join dstBase ''b''),
      CopyFile (Join archiveRoot ''b_patch.esp'') (Join dstBase ''b_patch.esp'')] @ final_ops"
proof -
  let ?st = "\<lparr>pluginFlags = Map.empty, ops = []\<rparr> :: state"
  let ?ff = "Join archiveRoot ''Fomod''"
  let ?doc = "document late_config"
  let ?pats = "case select_nodes ?doc Patterns of Inr ns \<Rightarrow> ns | Inl e \<Rightarrow> []"
  let ?chosen = "selected_nodes select_nodes ?doc (installFiles_of late_override)"
  let ?stB = "snd (installFiles_phase select_nodes ?doc (parent_path ?ff) late_override
                     (snd (required_phase select_nodes ?doc (parent_path ?ff) ?st)))"
  have pats: "select_nodes ?doc Patterns = Inr ?pats"
    by simp
  have ok: "fst (install_fomod select_nodes late_world ?ff ?st) = Inr ModDirectory"
    by code_simp
  have json: "json_side late_world = Parsed late_override"
    and xml: "module_config late_world = Some late_config"
    by (simp_all add: late_world_def)
  note C2 = C2_patterns_after_selectors [OF ok json xml pats, unfolded Let_def]
  have "''UseB'' \<in> set (flag_names (last ?chosen))" and "last ?chosen \<in> set ?chosen"
    by code_simp+
  with C2 have "''UseB'' \<in> dom (pluginFlags ?stB)"
    by blast
  with C2 have dom: "''UseB'' \<in> dom (pluginFlags (snd (install_fomod select_nodes late_world ?ff ?st)))"
    by simp
  have opsB: "ops ?stB =
      [CopyFile (Join archiveRoot ''a.esp'') (Join dstBase ''a.esp''),
       CopyFolder (Join archiveRoot ''b'') (Join dstBase ''b'')]"
    by code_simp
  have opsC: "concat (map (pattern_ops (parent_path ?ff) (pluginFlags ?stB)) ?pats) =
      [CopyFile (Join archiveRoot ''b_patch.esp'') (Join dstBase ''b_patch.esp'')]"
    by code_simp
  from C2 opsB opsC ok dom show ?thesis by simp
qed

section \<open>Runs that do not do what the specification asks\<close>

lemma fomod_tree_found: "find_fomod archiveRoot fomod_tree = Some (Join archiveRoot ''Fomod'')"
  by code_simp

text \<open>
  C6. The archive has a fomod folder with \<^verbatim>\<open>ModuleConfig.xml\<close> and there is no JSON file
  beside it: the run ends with "Cannot open JSON config" before it reads the XML, and no
  file is copied.
\<close>

theorem C6_missing_json_is_fatal:
  "find_fomod archiveRoot fomod_tree = Some (Join archiveRoot ''Fomod'') \<and>
   install select_nodes no_json_world Map.empty =
     (Inl CannotOpenJson, \<lparr>pluginFlags = Map.empty, ops = []\<rparr>)"
  using install_without_json [of no_json_world fomod_tree "Join archiveRoot ''Fomod''" select_nodes Map.empty]
  by (simp add: fomod_tree_found no_json_world_def)

text \<open>
  C1. Two calls in one process. The first archive's selected plugin sets Quality to High.
  The second archive selects nothing and has a pattern that asks for Quality to be High:
  run after the first, it copies the pattern's file, since the table still holds the flag;
  run on its own, from an empty table, it does not.
\<close>

theorem C1_flags_survive_the_call:
  "map (\<lambda>r. (fst r, ops (snd r), pluginFlags (snd r) ''Quality''))
     (install_all select_nodes [quality_world, plain_world] Map.empty) =
     [(Inr ModDirectory,
       [CopyFile (Join archiveRoot ''core.esp'') (Join dstBase ''core.esp'')] @ final_ops,
       Some ''High''),
      (Inr ModDirectory,
       [CopyFile (Join archiveRoot ''hq.esp'') (Join dstBase ''hq.esp'')] @ final_ops,
       Some ''High'')] \<and>
   (\<lambda>r. (fst r, ops (snd r), pluginFlags (snd r) ''Quality''))
     (install select_nodes plain_world Map.empty) =
     (Inr ModDirectory, final_ops, None)"
  by code_simp

end
